theory Spec2Isabelle
  imports Complex_Main "HOL-Library.Log_Nat"
begin

section \<open>Coherent alias sampling: the state-preparation gate of qualtran/bloqs/state_preparation.py\<close>

text \<open>
  A shallow embedding of the class \<^verbatim>\<open>StatePreparationAliasSampling\<close>: its four
  attributes, the factory \<^verbatim>\<open>from_lcu_probs\<close>, the derived bit sizes, the junk
  registers, the values its equality and hash are taken over, and the generator
  \<^verbatim>\<open>decompose_from_registers\<close>.

  Python integers are \<open>int\<close>, tuples are lists, a dictionary is a map, and a raise is
  a value \<open>Inl e\<close> of a sum type.
\<close>

subsection \<open>Registers\<close>

text \<open>
  \<^verbatim>\<open>Register\<close> and its subclass \<^verbatim>\<open>SelectionRegister\<close> are imported from
  \<^verbatim>\<open>qualtran\<close>. The source builds a selection register from three positional values,
  \<^verbatim>\<open>SelectionRegister('selection', (N - 1).bit_length(), N)\<close>, and reads its
  \<^verbatim>\<open>iteration_length\<close>; a plain register is built from a name and a bit size.
\<close>

record Register =
  name :: string
  bitsize :: int

record SelectionRegister = Register +
  iteration_length :: int

text \<open>
  Modelled from the spec: \<^verbatim>\<open>total_bits\<close> of \<^verbatim>\<open>qualtran._infra.gate_with_registers\<close>,
  which is not part of the source file. The spec calls its value "the total bits of the
  selection registers": the widths of the registers, added up.
\<close>

definition total_bits :: "'a Register_scheme list \<Rightarrow> int" where
  "total_bits regs = sum_list (map bitsize regs)"

text \<open>
  Modelled from the spec: \<^verbatim>\<open>Signature.build\<close> of \<^verbatim>\<open>qualtran\<close>, which is not part of
  the source file. The spec describes its result as one named descriptor per keyword,
  each of the width given, in the order of the keywords.
\<close>

definition Signature_build :: "(string \<times> int) list \<Rightarrow> Register list" where
  "Signature_build kwargs = map (\<lambda>(n, b). \<lparr>name = n, bitsize = b\<rparr>) kwargs"

subsection \<open>Arrays\<close>

text \<open>
  \<^verbatim>\<open>alt\<close> and \<^verbatim>\<open>keep\<close> are numpy integer arrays. The source uses an array in two
  ways: it hands it on to \<^verbatim>\<open>QROM\<close> as it is, and it flattens it with \<^verbatim>\<open>ravel()\<close>
  for equality. An array is its shape and its entries in row-major order;
  \<^verbatim>\<open>np.array\<close> of a list of integers is one-dimensional. The entries are integers
  (\<^verbatim>\<open>np.int_\<close>); the source does no arithmetic on them.
\<close>

record NDArray =
  shape :: "nat list"
  entries :: "int list"

definition ravel :: "NDArray \<Rightarrow> int list" where
  "ravel A = entries A"

definition np_array :: "int list \<Rightarrow> NDArray" where
  "np_array xs = \<lparr>shape = [length xs], entries = xs\<rparr>"

subsection \<open>The sampler and its constructor\<close>

record StatePreparationAliasSampling =
  selection_registers :: "SelectionRegister list"
  alt :: NDArray
  keep :: NDArray
  mu :: int

text \<open>
  The argument of the \<^verbatim>\<open>selection_registers\<close> attribute is either one selection
  register or an iterable of them; the converter
  \<^verbatim>\<open>lambda v: (v,) if isinstance(v, SelectionRegister) else tuple(v)\<close> makes a tuple of
  either.
\<close>

datatype selection_arg = One SelectionRegister | Many "SelectionRegister list"

fun converter :: "selection_arg \<Rightarrow> SelectionRegister list" where
  "converter (One v) = [v]"
| "converter (Many v) = v"

text \<open>
  The constructor that \<^verbatim>\<open>attrs.frozen\<close> generates: it converts the first argument
  and stores the other three. The class declares no validator, so the constructor has no
  failing branch for arguments of these types.
\<close>

definition StatePreparationAliasSampling_init ::
    "selection_arg \<Rightarrow> NDArray \<Rightarrow> NDArray \<Rightarrow> int \<Rightarrow> StatePreparationAliasSampling" where
  "StatePreparationAliasSampling_init v a k m =
     \<lparr>selection_registers = converter v, alt = a, keep = k, mu = m\<rparr>"

subsection \<open>The factory\<close>

text \<open>
  Python's \<^verbatim>\<open>int.bit_length\<close>: the number of binary digits of the absolute value,
  0 for 0.
\<close>

fun bit_length_nat :: "nat \<Rightarrow> nat" where
  "bit_length_nat n = (if n = 0 then 0 else Suc (bit_length_nat (n div 2)))"

declare bit_length_nat.simps [simp del]

definition bit_length :: "int \<Rightarrow> int" where
  "bit_length x = int (bit_length_nat (nat \<bar>x\<bar>))"

text \<open>
  \<^verbatim>\<open>from_lcu_probs\<close>. The table builder
  \<^verbatim>\<open>preprocess_lcu_coefficients_for_reversible_sampling\<close> lives in
  \<^verbatim>\<open>qualtran.linalg.lcu_util\<close>, outside the source file, and is the parameter
  \<open>preprocess\<close>: from the coefficients and \<open>epsilon\<close> it returns \<open>(alt, keep, mu)\<close> or
  raises, and what it raises leaves the factory unchanged. The factory reads nothing of
  the coefficients but their number, so their type is left open.
\<close>

definition from_lcu_probs ::
    "('c list \<Rightarrow> 'p \<Rightarrow> 'e + (int list \<times> int list \<times> int)) \<Rightarrow> 'c list \<Rightarrow> 'p
      \<Rightarrow> 'e + StatePreparationAliasSampling" where
  "from_lcu_probs preprocess lcu_probabilities probability_epsilon =
     (case preprocess lcu_probabilities probability_epsilon of
        Inl e \<Rightarrow> Inl e
      | Inr (a, k, m) \<Rightarrow>
          (let N = int (length lcu_probabilities) in
           Inr (StatePreparationAliasSampling_init
                  (One \<lparr>name = ''selection'', bitsize = bit_length (N - 1),
                        iteration_length = N\<rparr>)
                  (np_array a) (np_array k) m)))"

subsection \<open>Derived bit sizes and junk registers\<close>

definition sigma_mu_bitsize :: "StatePreparationAliasSampling \<Rightarrow> int" where
  "sigma_mu_bitsize S = mu S"

definition alternates_bitsize :: "StatePreparationAliasSampling \<Rightarrow> int" where
  "alternates_bitsize S = total_bits (selection_registers S)"

definition keep_bitsize :: "StatePreparationAliasSampling \<Rightarrow> int" where
  "keep_bitsize S = mu S"

definition selection_bitsize :: "StatePreparationAliasSampling \<Rightarrow> int" where
  "selection_bitsize S = total_bits (selection_registers S)"

definition junk_registers :: "StatePreparationAliasSampling \<Rightarrow> Register list" where
  "junk_registers S =
     Signature_build
       [(''sigma_mu'', sigma_mu_bitsize S),
        (''alt'', alternates_bitsize S),
        (''keep'', keep_bitsize S),
        (''less_than_equal'', 1)]"

subsection \<open>Equality and hashing\<close>

text \<open>
  The class is decorated with \<^verbatim>\<open>cirq.value_equality()\<close>, which takes equality and the
  hash from \<^verbatim>\<open>_value_equality_values_\<close>: two objects of the class are equal when
  these values are equal, and the hash of an object is the hash of its class and these
  values. The built-in hash is the parameter \<open>hash_fn\<close>.
\<close>

definition value_equality_values ::
    "StatePreparationAliasSampling \<Rightarrow> SelectionRegister list \<times> int list \<times> int list \<times> int" where
  "value_equality_values S =
     (selection_registers S, ravel (alt S), ravel (keep S), mu S)"

definition sampler_eq :: "StatePreparationAliasSampling \<Rightarrow> StatePreparationAliasSampling \<Rightarrow> bool" where
  "sampler_eq S T = (value_equality_values S = value_equality_values T)"

definition sampler_hash ::
    "(SelectionRegister list \<times> int list \<times> int list \<times> int \<Rightarrow> 'h)
      \<Rightarrow> StatePreparationAliasSampling \<Rightarrow> 'h" where
  "sampler_hash hash_fn S = hash_fn (value_equality_values S)"

subsection \<open>The imported gates\<close>

text \<open>
  Modelled from the spec: the gate classes \<^verbatim>\<open>PrepareUniformSuperposition\<close>, \<^verbatim>\<open>QROM\<close>,
  \<^verbatim>\<open>LessThanEqual\<close> and \<^verbatim>\<open>CSwap\<close>, which the source imports and which are not part of
  the source file, and \<^verbatim>\<open>cirq.H\<close>. The spec gives the registers each of them binds:
  the uniform superposition over \<open>N\<close> one register of width \<open>\<lceil>log\<^sub>2 N\<rceil>\<close>, the table
  lookup an address register and one target register for each table, the comparator two
  input registers and a one-bit output, the conditional exchange a one-bit control and
  two data registers of one width. A gate is a value of its class with the arguments of
  its constructor, and an operation is a gate on its qubits, in the order of its
  registers. \<open>'q\<close> is the type of qubits (\<^verbatim>\<open>cirq.Qid\<close>).
\<close>

datatype gate =
    PrepareUniformSuperposition int
  | H
  | QROM "NDArray list" "int list" "int list"
  | LessThanEqual int int
  | CSwap int

datatype 'q operation = On gate "'q list"

datatype py_error = KeyError string | IndexError | ValueError | AssertionError

text \<open>What raises stops what follows: the first error of a sequence of evaluations.\<close>

definition and_then :: "py_error + 'a \<Rightarrow> ('a \<Rightarrow> py_error + 'b) \<Rightarrow> py_error + 'b" where
  "and_then r f = (case r of Inl e \<Rightarrow> Inl e | Inr x \<Rightarrow> f x)"

fun collect :: "(py_error + 'a) list \<Rightarrow> py_error + 'a list" where
  "collect [] = Inr []"
| "collect (r # rs) = and_then r (\<lambda>x. and_then (collect rs) (\<lambda>xs. Inr (x # xs)))"

text \<open>The decimal digits of a number, as in the register names \<^verbatim>\<open>f'target{i}_'\<close>.\<close>

fun decimal :: "nat \<Rightarrow> string" where
  "decimal i = (if 10 \<le> i then decimal (i div 10) else []) @ [''0123456789'' ! (i mod 10)]"

declare decimal.simps [simp del]

text \<open>
  Modelled from the spec: the constructor of \<^verbatim>\<open>QROM\<close>, which is not part of the source
  file. The table lookup has one target register for each table and writes the entries
  of the table into it: the constructor asserts that its tables have one shape, that it
  has a target width for each table, and that the largest entry of each table fits the
  width of its target. \<^verbatim>\<open>np.max\<close> of an array without entries raises \<^verbatim>\<open>ValueError\<close>.
\<close>

definition np_max :: "NDArray \<Rightarrow> py_error + int" where
  "np_max A = (case entries A of [] \<Rightarrow> Inl ValueError | x # xs \<Rightarrow> Inr (fold max xs x))"

fun entries_fit :: "(NDArray \<times> int) list \<Rightarrow> py_error + bool" where
  "entries_fit [] = Inr True"
| "entries_fit ((d, t) # rest) =
     and_then (np_max d) (\<lambda>m. if bit_length m \<le> t then entries_fit rest else Inr False)"

definition QROM_init :: "NDArray list \<Rightarrow> int list \<Rightarrow> int list \<Rightarrow> py_error + gate" where
  "QROM_init data selection_bitsizes target_bitsizes =
     (if length (remdups (map shape data)) \<noteq> 1 then Inl AssertionError
      else if length target_bitsizes \<noteq> length data then Inl AssertionError
      else and_then (entries_fit (zip data target_bitsizes))
             (\<lambda>fit. if fit then Inr (QROM data selection_bitsizes target_bitsizes)
                     else Inl AssertionError))"

text \<open>
  Modelled from the spec: the registers of the gates, whose classes are not part of the
  source file, as the spec lists them for each gate. A selection register is refused
  with \<^verbatim>\<open>ValueError\<close> when its iteration length is not in \<open>[0, 2^bitsize]\<close>; the
  register that the factory builds, of width \<^verbatim>\<open>(N - 1).bit_length()\<close> for the iteration
  length \<open>N\<close>, is never refused. The address register of \<^verbatim>\<open>QROM\<close> is
  \<^verbatim>\<open>selection\<close>, as long as the first table, when the tables are one-dimensional, and
  \<^verbatim>\<open>selection0\<close>, \<^verbatim>\<open>selection1\<close>, ... otherwise; its targets are \<^verbatim>\<open>target0_\<close>,
  \<^verbatim>\<open>target1_\<close>, ..., those of width 0 left out.
\<close>

definition selection_register ::
    "string \<Rightarrow> int \<Rightarrow> int \<Rightarrow> py_error + Register" where
  "selection_register n b len =
     (if 0 \<le> len \<and> (if 0 \<le> b then len \<le> 2 ^ nat b else len = 0)
      then Inr \<lparr>name = n, bitsize = b\<rparr> else Inl ValueError)"

definition QROM_selection_registers :: "NDArray list \<Rightarrow> int list \<Rightarrow> py_error + Register list" where
  "QROM_selection_registers data selection_bitsizes =
     (case data of
        [] \<Rightarrow> Inl IndexError
      | d # _ \<Rightarrow>
          (case shape d of
             [len] \<Rightarrow>
               (case selection_bitsizes of
                  [] \<Rightarrow> Inl IndexError
                | sb # _ \<Rightarrow>
                    and_then (selection_register ''selection'' sb (int len)) (\<lambda>r. Inr [r]))
           | lens \<Rightarrow>
               collect (map (\<lambda>(i, len, sb).
                               selection_register (''selection'' @ decimal i) sb (int len))
                          (enumerate 0 (zip lens selection_bitsizes)))))"

definition QROM_target_registers :: "int list \<Rightarrow> Register list" where
  "QROM_target_registers target_bitsizes =
     map (\<lambda>(i, len). \<lparr>name = ''target'' @ decimal i @ ''_'', bitsize = len\<rparr>)
       (filter (\<lambda>(i, len). len \<noteq> 0) (enumerate 0 target_bitsizes))"

fun signature :: "gate \<Rightarrow> py_error + Register list" where
  "signature (PrepareUniformSuperposition n) =
     Inr (Signature_build [(''ctrl'', 0), (''target'', bit_length (n - 1))])"
| "signature H = Inr (Signature_build [(''q'', 1)])"
| "signature (QROM data selection_bitsizes target_bitsizes) =
     and_then (QROM_selection_registers data selection_bitsizes)
       (\<lambda>sel. Inr (sel @ QROM_target_registers target_bitsizes))"
| "signature (LessThanEqual x_bitsize y_bitsize) =
     Inr (Signature_build [(''x'', x_bitsize), (''y'', y_bitsize), (''target'', 1)])"
| "signature (CSwap b) = Inr (Signature_build [(''ctrl'', 1), (''x'', b), (''y'', b)])"

text \<open>
  \<^verbatim>\<open>g.on(*qubits)\<close>: the operation of \<open>g\<close> on the qubits, refused with \<^verbatim>\<open>ValueError\<close>
  when they are not as many as the registers of \<open>g\<close> hold or when a qubit stands twice.
\<close>

definition gate_on :: "gate \<Rightarrow> 'q list \<Rightarrow> py_error + 'q operation" where
  "gate_on g qubits =
     and_then (signature g)
       (\<lambda>regs. if int (length qubits) = total_bits regs \<and> distinct qubits
               then Inr (On g qubits) else Inl ValueError)"

text \<open>
  Modelled from the spec: \<^verbatim>\<open>g.on_registers(name=qubits, ...)\<close> of the base class of the
  gates, which is not part of the source file; the spec has a gate bound to registers
  of its declared widths. Every register of \<open>g\<close> must be among the keywords
  and bound to as many qubits as it is wide, or \<^verbatim>\<open>ValueError\<close> is raised; the qubits are
  then put together in the order of the registers and \<open>g\<close> is applied to them.
\<close>

fun merge_qubits :: "Register list \<Rightarrow> (string \<rightharpoonup> 'q list) \<Rightarrow> py_error + 'q list" where
  "merge_qubits [] qubit_regs = Inr []"
| "merge_qubits (reg # regs) qubit_regs =
     (case qubit_regs (name reg) of
        None \<Rightarrow> Inl ValueError
      | Some qubits \<Rightarrow>
          if int (length qubits) \<noteq> bitsize reg then Inl ValueError
          else and_then (merge_qubits regs qubit_regs) (\<lambda>rest. Inr (qubits @ rest)))"

definition on_registers :: "gate \<Rightarrow> (string \<rightharpoonup> 'q list) \<Rightarrow> py_error + 'q operation" where
  "on_registers g qubit_regs =
     and_then (signature g)
       (\<lambda>regs. and_then (merge_qubits regs qubit_regs) (gate_on g))"

text \<open>
  Modelled from the spec: \<^verbatim>\<open>CSwap.make_on(ctrl=..., x=..., y=...)\<close>, which is not part of
  the source file: the exchange as wide as \<^verbatim>\<open>x\<close>, on a one-bit control and two data
  registers of this width.
\<close>

definition CSwap_make_on :: "(string \<rightharpoonup> 'q list) \<Rightarrow> py_error + 'q operation" where
  "CSwap_make_on quregs =
     (case quregs ''x'' of
        None \<Rightarrow> Inl (KeyError ''x'')
      | Some x \<Rightarrow> on_registers (CSwap (int (length x))) quregs)"

text \<open>
  \<^verbatim>\<open>g.on_each(*qubits)\<close>: the list of the applications of \<open>g\<close> to each qubit; for the
  one-qubit gate \<^verbatim>\<open>cirq.H\<close> none of them is refused.
\<close>

definition on_each :: "gate \<Rightarrow> 'q list \<Rightarrow> 'q operation list" where
  "on_each g qubits = map (\<lambda>q. On g [q]) qubits"

subsection \<open>The decomposition\<close>

text \<open>
  What one \<^verbatim>\<open>yield\<close> hands out: an operation, or the list of operations that
  \<^verbatim>\<open>on_each\<close> returns.
\<close>

datatype 'q op_tree = Op "'q operation" | Op_list "'q operation list"

text \<open>
  A generator hands out its steps one after the other, and an expression that raises
  ends it: the result is the steps handed out before, and the error, if there is one.
\<close>

fun run_yields :: "(py_error + 'a) list \<Rightarrow> 'a list \<times> py_error option" where
  "run_yields [] = ([], None)"
| "run_yields (Inl e # rest) = ([], Some e)"
| "run_yields (Inr x # rest) = (x # fst (run_yields rest), snd (run_yields rest))"

text \<open>\<^verbatim>\<open>d.get(key, default)\<close> of a dictionary.\<close>

definition dict_get :: "('k \<rightharpoonup> 'v) \<Rightarrow> 'k \<Rightarrow> 'v \<Rightarrow> 'v" where
  "dict_get d key dflt = (case d key of None \<Rightarrow> dflt | Some v \<Rightarrow> v)"

text \<open>
  \<^verbatim>\<open>decompose_from_registers\<close>. \<open>quregs\<close> is the dictionary of the keyword arguments:
  a register name is bound to its qubits or is absent. The three subscripts
  \<^verbatim>\<open>quregs['selection']\<close>, \<^verbatim>\<open>quregs['less_than_equal']\<close> and \<^verbatim>\<open>quregs['alt']\<close> raise
  \<^verbatim>\<open>KeyError\<close> on an absent name, in this order, and \<^verbatim>\<open>self.selection_registers[0]\<close>
  raises \<^verbatim>\<open>IndexError\<close> on an empty tuple, all before the first \<^verbatim>\<open>yield\<close>. Then come the
  five \<^verbatim>\<open>yield\<close> statements, each of which first builds what it hands out; the
  constructor of \<^verbatim>\<open>QROM\<close> stands between the second and the third.
\<close>

definition decompose_from_registers ::
    "StatePreparationAliasSampling \<Rightarrow> (string \<rightharpoonup> 'q list)
      \<Rightarrow> 'q op_tree list \<times> py_error option" where
  "decompose_from_registers S quregs =
     (case quregs ''selection'' of
        None \<Rightarrow> ([], Some (KeyError ''selection''))
      | Some selection \<Rightarrow>
     (case quregs ''less_than_equal'' of
        None \<Rightarrow> ([], Some (KeyError ''less_than_equal''))
      | Some less_than_equal \<Rightarrow>
     (let sigma_mu = dict_get quregs ''sigma_mu'' [] in
     (case quregs ''alt'' of
        None \<Rightarrow> ([], Some (KeyError ''alt''))
      | Some alt_q \<Rightarrow>
     (let keep_q = dict_get quregs ''keep'' [] in
     (case selection_registers S of
        [] \<Rightarrow> ([], Some IndexError)
      | r # _ \<Rightarrow>
     (let N = iteration_length r in
      run_yields
        [and_then (gate_on (PrepareUniformSuperposition N) selection) (\<lambda>op. Inr (Op op)),
         Inr (Op_list (on_each H sigma_mu)),
         and_then (QROM_init [alt S, keep S] [selection_bitsize S]
                     [alternates_bitsize S, keep_bitsize S])
           (\<lambda>qrom_gate.
              and_then (on_registers qrom_gate
                          (map_of [(''selection'', selection), (''target0_'', alt_q),
                                   (''target1_'', keep_q)]))
                (\<lambda>op. Inr (Op op))),
         and_then (gate_on (LessThanEqual (mu S) (mu S))
                     (keep_q @ sigma_mu @ less_than_equal))
           (\<lambda>op. Inr (Op op)),
         and_then (CSwap_make_on
                     (map_of [(''ctrl'', less_than_equal), (''x'', alt_q),
                              (''y'', selection)]))
           (\<lambda>op. Inr (Op op))])))))))"

text \<open>
  Modelled from the spec: the bindings that match the declared widths. The registers a
  sampler declares are its selection registers and its junk registers (the base class
  \<^verbatim>\<open>PrepareOracle\<close>, which puts them together, is not part of the source file); a
  dictionary of bindings matches them when it binds each declared name to as many qubits
  as the declared width.
\<close>

definition declared_widths :: "StatePreparationAliasSampling \<Rightarrow> (string \<times> int) list" where
  "declared_widths S =
     map (\<lambda>r. (name r, bitsize r)) (selection_registers S)
     @ map (\<lambda>r. (name r, bitsize r)) (junk_registers S)"

definition binding_has_width :: "(string \<rightharpoonup> 'q list) \<Rightarrow> string \<times> int \<Rightarrow> bool" where
  "binding_has_width quregs d =
     (case quregs (fst d) of None \<Rightarrow> False | Some qs \<Rightarrow> int (length qs) = snd d)"

definition bindings_match :: "StatePreparationAliasSampling \<Rightarrow> (string \<rightharpoonup> 'q list) \<Rightarrow> bool" where
  "bindings_match S quregs = list_all (binding_has_width quregs) (declared_widths S)"

subsection \<open>The alias table as the spec describes it\<close>

text \<open>
  Modelled from the spec: the table that the builder
  \<^verbatim>\<open>preprocess_lcu_coefficients_for_reversible_sampling\<close> returns; the builder is not part
  of the source file. The spec's data model gives the table two integer arrays
  \<open>alt[0..L-1]\<close> and \<open>keep[0..L-1]\<close> and a precision \<open>mu\<close>, with \<open>alt[i]\<close> in
  \<open>[0, L)\<close> and \<open>keep[i]\<close> in \<open>[0, 2^mu)\<close> for all \<open>i\<close>.
\<close>

definition AliasTable_invariants :: "int \<Rightarrow> int list \<Rightarrow> int list \<Rightarrow> int \<Rightarrow> bool" where
  "AliasTable_invariants L a k m =
     (int (length a) = L \<and> int (length k) = L \<and> 0 \<le> m
      \<and> list_all (\<lambda>x. 0 \<le> x \<and> x < L) a
      \<and> list_all (\<lambda>x. 0 \<le> x \<and> x < 2 ^ nat m) k)"

text \<open>
  Modelled from the spec: the mass the table gives to outcome \<open>l\<close>, in units of
  \<open>1/(L * 2^mu)\<close>: the \<open>keep[l]\<close> units it retains, and the \<open>2^mu - keep[j]\<close> units
  donated by every \<open>j\<close> with \<open>alt[j] = l\<close>.
\<close>

definition donated_units :: "int list \<Rightarrow> int list \<Rightarrow> int \<Rightarrow> nat \<Rightarrow> int" where
  "donated_units a k m l =
     sum_list (map (\<lambda>j. if a ! j = int l then 2 ^ nat m - k ! j else 0) [0..<length a])"

definition encoded_units :: "int list \<Rightarrow> int list \<Rightarrow> int \<Rightarrow> nat \<Rightarrow> int" where
  "encoded_units a k m l = k ! l + donated_units a k m l"

definition total_encoded_units :: "int list \<Rightarrow> int list \<Rightarrow> int \<Rightarrow> int" where
  "total_encoded_units a k m = sum_list (map (encoded_units a k m) [0..<length a])"

subsection \<open>Example values\<close>

text \<open>
  Three outcomes with probabilities \<open>1/2, 1/4, 1/4\<close> at precision \<open>mu = 2\<close>: each
  outcome owns \<open>2^2 = 4\<close> units, outcomes 1 and 2 keep 3 of their units and give one
  to outcome 0, and outcome 0 gives its units to itself. Exchanging the first two
  probabilities gives the second table. \<open>example_preprocess\<close> is a table builder that
  knows these two coefficient vectors and rejects every other.
\<close>

definition example_probabilities :: "rat list" where
  "example_probabilities = [1/2, 1/4, 1/4]"

definition example_epsilon :: rat where
  "example_epsilon = 1/10"

definition example_preprocess ::
    "rat list \<Rightarrow> rat \<Rightarrow> unit + (int list \<times> int list \<times> int)" where
  "example_preprocess p e =
     (if p = [1/2, 1/4, 1/4] then Inr ([0, 0, 0], [0, 3, 3], 2)
      else if p = [1/4, 1/2, 1/4] then Inr ([1, 1, 1], [3, 0, 3], 2)
      else Inl ())"

definition example_sampler :: StatePreparationAliasSampling where
  "example_sampler =
     \<lparr>selection_registers = [\<lparr>name = ''selection'', bitsize = 2, iteration_length = 3\<rparr>],
      alt = np_array [0, 0, 0], keep = np_array [0, 3, 3], mu = 2\<rparr>"

definition changed_sampler :: StatePreparationAliasSampling where
  "changed_sampler =
     \<lparr>selection_registers = [\<lparr>name = ''selection'', bitsize = 2, iteration_length = 3\<rparr>],
      alt = np_array [1, 1, 1], keep = np_array [3, 0, 3], mu = 2\<rparr>"

text \<open>
  The table of the uniform distribution over \<open>L\<close> outcomes, in which every outcome
  gives its units to itself, and a table builder that knows the uniform distributions
  only.
\<close>

definition uniform_preprocess ::
    "rat list \<Rightarrow> rat \<Rightarrow> unit + (int list \<times> int list \<times> int)" where
  "uniform_preprocess p e =
     (if p \<noteq> [] \<and> list_all (\<lambda>x. x = 1 / of_nat (length p)) p
      then Inr (map int [0..<length p], replicate (length p) 0, 2)
      else Inl ())"

definition uniform_probabilities :: "nat \<Rightarrow> rat list" where
  "uniform_probabilities L = replicate L (1 / of_nat L)"

definition uniform_sampler :: "nat \<Rightarrow> int \<Rightarrow> StatePreparationAliasSampling" where
  "uniform_sampler L w =
     \<lparr>selection_registers = [\<lparr>name = ''selection'', bitsize = w, iteration_length = int L\<rparr>],
      alt = np_array (map int [0..<L]), keep = np_array (replicate L 0), mu = 2\<rparr>"

text \<open>
  The example sampler's values again, constructed directly, from a tuple of selection
  registers and from arrays of other shapes.
\<close>

definition reshaped_sampler :: StatePreparationAliasSampling where
  "reshaped_sampler =
     StatePreparationAliasSampling_init
       (Many [\<lparr>name = ''selection'', bitsize = 2, iteration_length = 3\<rparr>])
       \<lparr>shape = [3, 1], entries = [0, 0, 0]\<rparr> \<lparr>shape = [1, 3], entries = [0, 3, 3]\<rparr> 2"








definition short_sigma_quregs :: "string \<rightharpoonup> nat list" where
  "short_sigma_quregs =
     map_of [(''selection'', [0, 1]), (''sigma_mu'', [2]), (''alt'', [4, 5]),
             (''keep'', [6, 7]), (''less_than_equal'', [8])]"

section \<open>Auxiliary facts\<close>

subsection \<open>Bit length\<close>

lemma bit_length_nat_bounds:
  "n < 2 ^ bit_length_nat n \<and> (0 < n \<longrightarrow> 2 ^ (bit_length_nat n - 1) \<le> n)"
proof (induction n rule: bit_length_nat.induct)
  case (1 n)
  show ?case
  proof (cases "n = 0")
    case True
    then show ?thesis by (simp add: bit_length_nat.simps)
  next
    case False
    then have bl: "bit_length_nat n = Suc (bit_length_nat (n div 2))"
      by (subst bit_length_nat.simps) simp
    from False 1 have ih: "n div 2 < 2 ^ bit_length_nat (n div 2)"
      and ih2: "0 < n div 2 \<longrightarrow> 2 ^ (bit_length_nat (n div 2) - 1) \<le> n div 2"
      by auto
    have "n < 2 * 2 ^ bit_length_nat (n div 2)" using ih by linarith
    moreover have "2 ^ bit_length_nat (n div 2) \<le> n"
    proof (cases "n div 2 = 0")
      case True
      with False have "n = 1" by linarith
      then show ?thesis by (simp add: bit_length_nat.simps)
    next
      case F2: False
      then have "0 < bit_length_nat (n div 2)"
        by (subst bit_length_nat.simps) simp
      then have "(2::nat) ^ bit_length_nat (n div 2) = 2 * 2 ^ (bit_length_nat (n div 2) - 1)"
        by (metis power_eq_if less_numeral_extra(3))
      with ih2 F2 show ?thesis by linarith
    qed
    ultimately show ?thesis using bl by simp
  qed
qed

lemma bit_length_pred_ceillog2:
  assumes "1 \<le> L"
  shows "bit_length_nat (L - 1) = ceillog2 L"
proof -
  let ?w = "bit_length_nat (L - 1)"
  have "L - 1 < 2 ^ ?w" using bit_length_nat_bounds by blast
  then have up: "L \<le> 2 ^ ?w" using assms by linarith
  have low: "2 ^ ?w < 2 * L"
  proof (cases "L = 1")
    case True
    then show ?thesis by (simp add: bit_length_nat.simps)
  next
    case False
    with assms have pos: "0 < L - 1" by linarith
    then have "2 ^ (?w - 1) \<le> L - 1" using bit_length_nat_bounds by blast
    moreover from pos have "0 < ?w" by (subst bit_length_nat.simps) simp
    then have "(2::nat) ^ ?w = 2 * 2 ^ (?w - 1)"
      by (metis power_eq_if less_numeral_extra(3))
    ultimately show ?thesis using pos by linarith
  qed
  show ?thesis using ceillog2_eqI [OF up low] by simp
qed

lemma bit_length_pred_ceiling_log:
  assumes "1 \<le> L"
  shows "bit_length (int L - 1) = \<lceil>log 2 (real L)\<rceil>"
proof -
  have abs: "nat \<bar>int L - 1\<bar> = L - 1" using assms by linarith
  have "bit_length (int L - 1) = int (bit_length_nat (L - 1))"
    by (simp only: bit_length_def abs)
  also have "\<dots> = int (ceillog2 L)"
    by (simp only: bit_length_pred_ceillog2 [OF assms])
  also have "\<dots> = \<lceil>log 2 (real L)\<rceil>"
  proof -
    have "0 \<le> log 2 (real L)" using assms by simp
    then have "0 \<le> \<lceil>log 2 (real L)\<rceil>" by linarith
    then show ?thesis using assms by (simp add: ceillog2_def)
  qed
  finally show ?thesis .
qed

lemma bit_length_2: "bit_length 2 = 2"
  by (simp add: bit_length_def bit_length_nat.simps)

lemma bit_length_nat_le_iff: "bit_length_nat n \<le> m \<longleftrightarrow> n < 2 ^ m"
proof
  assume "bit_length_nat n \<le> m"
  then have "(2::nat) ^ bit_length_nat n \<le> 2 ^ m" by (simp add: power_increasing)
  with bit_length_nat_bounds [of n] show "n < 2 ^ m" by linarith
next
  assume lt: "n < 2 ^ m"
  show "bit_length_nat n \<le> m"
  proof (cases "n = 0")
    case True
    then show ?thesis by (simp add: bit_length_nat.simps)
  next
    case False
    with bit_length_nat_bounds [of n] have "2 ^ (bit_length_nat n - 1) \<le> n" by simp
    with lt have "(2::nat) ^ (bit_length_nat n - 1) < 2 ^ m" by linarith
    then have "bit_length_nat n - 1 < m" by (simp add: power_strict_increasing_iff)
    then show ?thesis by linarith
  qed
qed

lemma bit_length_le_iff:
  assumes "0 \<le> x" and "0 \<le> m"
  shows "bit_length x \<le> m \<longleftrightarrow> x < 2 ^ nat m"
proof -
  have "bit_length x \<le> m \<longleftrightarrow> bit_length_nat (nat x) \<le> nat m"
    using assms by (simp add: bit_length_def) linarith
  also have "\<dots> \<longleftrightarrow> nat x < 2 ^ nat m" by (rule bit_length_nat_le_iff)
  also have "\<dots> \<longleftrightarrow> x < 2 ^ nat m" using assms by (simp add: nat_less_iff)
  finally show ?thesis .
qed

lemma bit_length_nonneg: "0 \<le> bit_length x"
  by (simp add: bit_length_def)

lemma bit_length_pred_bound:
  assumes "1 \<le> L"
  shows "L \<le> 2 ^ nat (bit_length (L - 1))"
proof -
  have "bit_length (L - 1) \<le> bit_length (L - 1)" by simp
  then have "L - 1 < 2 ^ nat (bit_length (L - 1))"
    using assms bit_length_le_iff [of "L - 1" "bit_length (L - 1)"] bit_length_nonneg by simp
  then show ?thesis by simp
qed

subsection \<open>What the factory returns\<close>

lemma from_lcu_probs_Inr:
  assumes "preprocess probs eps = Inr (a, k, m)"
  shows "from_lcu_probs preprocess probs eps =
    Inr \<lparr>selection_registers =
           [\<lparr>name = ''selection'', bitsize = bit_length (int (length probs) - 1),
             iteration_length = int (length probs)\<rparr>],
         alt = np_array a, keep = np_array k, mu = m\<rparr>"
  using assms by (simp add: from_lcu_probs_def StatePreparationAliasSampling_init_def Let_def)

lemma from_lcu_probs_InrD:
  assumes "from_lcu_probs preprocess probs eps = Inr S"
  shows "\<exists>a k m. preprocess probs eps = Inr (a, k, m) \<and>
    S = \<lparr>selection_registers =
           [\<lparr>name = ''selection'', bitsize = bit_length (int (length probs) - 1),
             iteration_length = int (length probs)\<rparr>],
         alt = np_array a, keep = np_array k, mu = m\<rparr>"
  using assms
  by (auto simp add: from_lcu_probs_def StatePreparationAliasSampling_init_def Let_def
      split: sum.splits prod.splits)

lemma selection_bitsize_factory:
  assumes "from_lcu_probs preprocess probs eps = Inr S"
  shows "selection_bitsize S = bit_length (int (length probs) - 1)"
  using from_lcu_probs_InrD [OF assms]
  by (auto simp add: selection_bitsize_def total_bits_def)

lemma example_sampler_factory:
  "from_lcu_probs example_preprocess example_probabilities example_epsilon = Inr example_sampler"
  by (simp add: from_lcu_probs_Inr [of example_preprocess _ _ "[0, 0, 0]" "[0, 3, 3]" 2]
      example_preprocess_def example_probabilities_def example_sampler_def bit_length_2)

lemma changed_sampler_factory:
  "from_lcu_probs example_preprocess (example_probabilities[0 := 1/4, 1 := 1/2]) example_epsilon
     = Inr changed_sampler"
  by (simp add: from_lcu_probs_Inr [of example_preprocess _ _ "[1, 1, 1]" "[3, 0, 3]" 2]
      example_preprocess_def example_probabilities_def changed_sampler_def bit_length_2)

lemma uniform_sampler_factory:
  assumes "0 < L"
  shows "from_lcu_probs uniform_preprocess (uniform_probabilities L) example_epsilon
     = Inr (uniform_sampler L (bit_length (int L - 1)))"
proof -
  have "uniform_preprocess (uniform_probabilities L) example_epsilon
      = Inr (map int [0..<L], replicate L 0, 2)"
    using assms by (simp add: uniform_preprocess_def uniform_probabilities_def list_all_length)
  with from_lcu_probs_Inr [of uniform_preprocess "uniform_probabilities L" example_epsilon
      "map int [0..<L]" "replicate L 0" 2]
  show ?thesis
    by (simp add: uniform_sampler_def uniform_probabilities_def)
qed

lemma bit_length_examples: "bit_length 4 = 3" "bit_length 7 = 3" "bit_length 8 = 4"
  by (simp_all add: bit_length_def bit_length_nat.simps)

lemma ceiling_log2_3: "\<lceil>log 2 (real (length example_probabilities))\<rceil> = 2"
  using bit_length_pred_ceiling_log [of "length example_probabilities"]
  by (simp add: example_probabilities_def bit_length_2)

lemma example_sampler_table:
  "AliasTable_invariants (int (length example_probabilities))
     (ravel (alt example_sampler)) (ravel (keep example_sampler)) (mu example_sampler)"
  by (simp add: AliasTable_invariants_def example_probabilities_def example_sampler_def
      ravel_def np_array_def)






subsection \<open>Sums over an alias table\<close>

lemma donated_to_one_outcome:
  assumes "0 \<le> x" and "x < int n"
  shows "(\<Sum>l<n. if x = int l then c else 0) = (c::int)"
proof -
  have "(\<Sum>l<n. if x = int l then c else 0) = (\<Sum>l\<in>{..<n}. if l = nat x then c else 0)"
    using assms by (intro sum.cong) auto
  also have "\<dots> = (if nat x \<in> {..<n} then c else 0)"
    by (simp only: sum.delta finite_lessThan)
  also have "\<dots> = c" using assms by (simp add: nat_less_iff)
  finally show ?thesis .
qed

lemma donations_sum:
  assumes "\<forall>j<n. 0 \<le> a ! j \<and> a ! j < int n"
  shows "(\<Sum>l<n. \<Sum>j<n. if a ! j = int l then c j else 0) = (\<Sum>j<n. (c j :: int))"
proof -
  have "(\<Sum>l<n. \<Sum>j<n. if a ! j = int l then c j else 0)
      = (\<Sum>j<n. \<Sum>l<n. if a ! j = int l then c j else 0)"
    by (rule sum.swap)
  also have "\<dots> = (\<Sum>j<n. c j)"
    using assms by (intro sum.cong refl donated_to_one_outcome) auto
  finally show ?thesis .
qed

lemma total_encoded_units_sum:
  "total_encoded_units a k m =
     (\<Sum>l<length a. k ! l) + (\<Sum>l<length a. \<Sum>j<length a. if a ! j = int l then 2 ^ nat m - k ! j else 0)"
  by (simp add: total_encoded_units_def encoded_units_def donated_units_def
      interv_sum_list_conv_sum_set_nat sum.distrib atLeast0LessThan)

lemma conservation_of_table:
  assumes "AliasTable_invariants L a k m"
  shows "total_encoded_units a k m = L * 2 ^ nat m"
proof -
  let ?n = "length a"
  from assms have len: "int ?n = L" and lenk: "length k = ?n"
    and rng: "\<forall>j<?n. 0 \<le> a ! j \<and> a ! j < int ?n"
    by (auto simp add: AliasTable_invariants_def list_all_length)
  have "total_encoded_units a k m
      = (\<Sum>l<?n. k ! l) + (\<Sum>j<?n. 2 ^ nat m - k ! j)"
    by (simp only: total_encoded_units_sum donations_sum [OF rng])
  also have "\<dots> = (\<Sum>j<?n. 2 ^ nat m)"
    by (simp add: sum_subtractf)
  also have "\<dots> = L * 2 ^ nat m"
    using len by simp
  finally show ?thesis .
qed

lemma example_table_invariants:
  "AliasTable_invariants (int (length example_probabilities)) [0, 0, 0] [0, 3, 3] 2"
  by (simp add: AliasTable_invariants_def example_probabilities_def)

subsection \<open>The gates and the steps of the decomposition\<close>

lemma factory_register_accepted:
  assumes "0 \<le> N"
  shows "selection_register ''selection'' (bit_length (N - 1)) N =
    Inr \<lparr>name = ''selection'', bitsize = bit_length (N - 1)\<rparr>"
proof (cases "N = 0")
  case True
  then show ?thesis
    by (simp add: selection_register_def bit_length_def bit_length_nat.simps)
next
  case False
  with assms have "1 \<le> N" by simp
  from bit_length_pred_bound [OF this] assms bit_length_nonneg [of "N - 1"]
  show ?thesis by (simp add: selection_register_def)
qed

lemma decimal_0_1: "decimal 0 = ''0''" "decimal (Suc 0) = ''1''"
  by (simp_all add: decimal.simps)

lemma QROM_target_registers_two:
  "QROM_target_registers [w, m] =
     (if w \<noteq> 0 then [\<lparr>name = ''target0_'', bitsize = w\<rparr>] else [])
     @ (if m \<noteq> 0 then [\<lparr>name = ''target1_'', bitsize = m\<rparr>] else [])"
  by (simp add: QROM_target_registers_def enumerate_eq_zip upt_rec decimal_0_1)

lemma gate_on_PrepareUniformSuperposition:
  "gate_on (PrepareUniformSuperposition N) qs =
     (if int (length qs) = bit_length (N - 1) \<and> distinct qs
      then Inr (On (PrepareUniformSuperposition N) qs) else Inl ValueError)"
  by (simp add: gate_on_def and_then_def Signature_build_def total_bits_def)

lemma gate_on_LessThanEqual:
  "gate_on (LessThanEqual x y) qs =
     (if int (length qs) = x + y + 1 \<and> distinct qs
      then Inr (On (LessThanEqual x y) qs) else Inl ValueError)"
  by (simp add: gate_on_def and_then_def Signature_build_def total_bits_def)

lemma CSwap_make_on_bindings:
  assumes "kw ''ctrl'' = Some f" and "kw ''x'' = Some a" and "kw ''y'' = Some sel"
  shows "CSwap_make_on kw =
     (if length f = 1 \<and> length sel = length a \<and> distinct (f @ a @ sel)
      then Inr (On (CSwap (int (length a))) (f @ a @ sel)) else Inl ValueError)"
  using assms
  by (auto simp add: CSwap_make_on_def on_registers_def gate_on_def and_then_def
      Signature_build_def total_bits_def)

lemma fold_max_in: "fold max xs (x::int) \<in> set (x # xs)"
  by (induction xs arbitrary: x) (auto simp add: max_def)

lemma np_max_np_array:
  assumes "xs \<noteq> []"
  shows "\<exists>v. np_max (np_array xs) = Inr v \<and> v \<in> set xs"
proof (cases xs)
  case Nil
  with assms show ?thesis by simp
next
  case (Cons x ys)
  then show ?thesis using fold_max_in [of ys x]
    by (simp add: np_max_def np_array_def)
qed

lemma QROM_init_table:
  assumes "AliasTable_invariants L a k m" and "1 \<le> L"
  shows "QROM_init [np_array a, np_array k] [bit_length (L - 1)] [bit_length (L - 1), m] =
    Inr (QROM [np_array a, np_array k] [bit_length (L - 1)] [bit_length (L - 1), m])"
proof -
  from assms have la: "int (length a) = L" and lk: "int (length k) = L" and m0: "0 \<le> m"
    and ra: "\<forall>x\<in>set a. 0 \<le> x \<and> x < L" and rk: "\<forall>x\<in>set k. 0 \<le> x \<and> x < 2 ^ nat m"
    by (auto simp add: AliasTable_invariants_def list_all_iff)
  from la lk assms(2) have ne: "a \<noteq> []" "k \<noteq> []" by auto
  from np_max_np_array [OF ne(1)] obtain va where va: "np_max (np_array a) = Inr va" "va \<in> set a"
    by blast
  from np_max_np_array [OF ne(2)] obtain vk where vk: "np_max (np_array k) = Inr vk" "vk \<in> set k"
    by blast
  have "va < 2 ^ nat (bit_length (L - 1))"
    using ra va(2) bit_length_pred_bound [OF assms(2)] by fastforce
  then have fa: "bit_length va \<le> bit_length (L - 1)"
    using ra va(2) bit_length_le_iff [of va "bit_length (L - 1)"] bit_length_nonneg by simp
  have fk: "bit_length vk \<le> m"
    using rk vk(2) m0 bit_length_le_iff [of vk m] by simp
  have shapes: "shape (np_array a) = shape (np_array k)"
    using la lk by (simp add: np_array_def)
  show ?thesis
    using va(1) vk(1) fa fk shapes by (simp add: QROM_init_def and_then_def)
qed

lemma signature_QROM_table:
  assumes "int (length a) = L" and "1 \<le> L"
  shows "signature (QROM [np_array a, np_array k] [bit_length (L - 1)] [w, m]) =
    Inr (\<lparr>name = ''selection'', bitsize = bit_length (L - 1)\<rparr> # QROM_target_registers [w, m])"
  using assms bit_length_pred_bound [OF assms(2)] bit_length_nonneg [of "L - 1"]
  by (simp add: QROM_selection_registers_def selection_register_def and_then_def np_array_def)

lemma QROM_on_registers_table:
  assumes "int (length a) = L" and "1 \<le> L"
    and "kw ''selection'' = Some sel" and "kw ''target0_'' = Some aq"
    and "kw ''target1_'' = Some kq"
  shows "on_registers (QROM [np_array a, np_array k] [bit_length (L - 1)] [w, m]) kw =
    (if int (length sel) = bit_length (L - 1)
        \<and> (w \<noteq> 0 \<longrightarrow> int (length aq) = w) \<and> (m \<noteq> 0 \<longrightarrow> int (length kq) = m)
        \<and> distinct (sel @ (if w \<noteq> 0 then aq else []) @ (if m \<noteq> 0 then kq else []))
     then Inr (On (QROM [np_array a, np_array k] [bit_length (L - 1)] [w, m])
                 (sel @ (if w \<noteq> 0 then aq else []) @ (if m \<noteq> 0 then kq else [])))
     else Inl ValueError)"
  unfolding on_registers_def gate_on_def signature_QROM_table [OF assms(1,2)]
  using assms(3-5)
  by (auto simp add: QROM_target_registers_two and_then_def total_bits_def)

lemma decompose_factory_form:
  assumes S: "S = \<lparr>selection_registers =
           [\<lparr>name = ''selection'', bitsize = bit_length (L - 1), iteration_length = L\<rparr>],
         alt = np_array a, keep = np_array k, mu = m\<rparr>"
    and inv: "AliasTable_invariants L a k m" and L: "1 \<le> L"
    and sel: "quregs ''selection'' = Some sel"
    and f: "quregs ''less_than_equal'' = Some f"
    and aq: "quregs ''alt'' = Some aq"
    and sig: "sig = dict_get quregs ''sigma_mu'' []"
    and kq: "kq = dict_get quregs ''keep'' []"
    and w: "w = bit_length (L - 1)"
  shows "decompose_from_registers S quregs =
    run_yields
      [if int (length sel) = w \<and> distinct sel
       then Inr (Op (On (PrepareUniformSuperposition L) sel)) else Inl ValueError,
       Inr (Op_list (map (\<lambda>q. On H [q]) sig)),
       if int (length sel) = w
          \<and> (w \<noteq> 0 \<longrightarrow> int (length aq) = w) \<and> (m \<noteq> 0 \<longrightarrow> int (length kq) = m)
          \<and> distinct (sel @ (if w \<noteq> 0 then aq else []) @ (if m \<noteq> 0 then kq else []))
       then Inr (Op (On (QROM [np_array a, np_array k] [w] [w, m])
                      (sel @ (if w \<noteq> 0 then aq else []) @ (if m \<noteq> 0 then kq else []))))
       else Inl ValueError,
       if int (length (kq @ sig @ f)) = m + m + 1 \<and> distinct (kq @ sig @ f)
       then Inr (Op (On (LessThanEqual m m) (kq @ sig @ f))) else Inl ValueError,
       if length f = 1 \<and> length sel = length aq \<and> distinct (f @ aq @ sel)
       then Inr (Op (On (CSwap (int (length aq))) (f @ aq @ sel))) else Inl ValueError]"
proof -
  from inv have la: "int (length a) = L" by (simp add: AliasTable_invariants_def)
  have widths: "selection_bitsize S = w" "alternates_bitsize S = w" "keep_bitsize S = m"
    by (simp_all add: S w selection_bitsize_def alternates_bitsize_def keep_bitsize_def
        total_bits_def)
  have init: "QROM_init [alt S, keep S] [selection_bitsize S]
      [alternates_bitsize S, keep_bitsize S] = Inr (QROM [np_array a, np_array k] [w] [w, m])"
    using QROM_init_table [OF inv L] by (simp add: widths) (simp add: S w)
  have third: "and_then (QROM_init [alt S, keep S] [selection_bitsize S]
                     [alternates_bitsize S, keep_bitsize S])
           (\<lambda>qrom_gate.
              and_then (on_registers qrom_gate
                          (map_of [(''selection'', sel), (''target0_'', aq),
                                   (''target1_'', kq)]))
                (\<lambda>op. Inr (Op op))) =
       (if int (length sel) = w
          \<and> (w \<noteq> 0 \<longrightarrow> int (length aq) = w) \<and> (m \<noteq> 0 \<longrightarrow> int (length kq) = m)
          \<and> distinct (sel @ (if w \<noteq> 0 then aq else []) @ (if m \<noteq> 0 then kq else []))
       then Inr (Op (On (QROM [np_array a, np_array k] [w] [w, m])
                      (sel @ (if w \<noteq> 0 then aq else []) @ (if m \<noteq> 0 then kq else []))))
       else Inl ValueError)"
  proof -
    have kw: "map_of [(''selection'', sel), (''target0_'', aq), (''target1_'', kq)] ''selection''
        = Some sel"
      "map_of [(''selection'', sel), (''target0_'', aq), (''target1_'', kq)] ''target0_''
        = Some aq"
      "map_of [(''selection'', sel), (''target0_'', aq), (''target1_'', kq)] ''target1_''
        = Some kq"
      by simp_all
    show ?thesis
      unfolding init w
      by (simp only: and_then_def sum.case QROM_on_registers_table [OF la L kw])
        (simp split: if_splits)
  qed
  have first: "and_then (gate_on (PrepareUniformSuperposition L) sel) (\<lambda>op. Inr (Op op)) =
      (if int (length sel) = w \<and> distinct sel
       then Inr (Op (On (PrepareUniformSuperposition L) sel)) else Inl ValueError)"
    by (simp add: gate_on_PrepareUniformSuperposition and_then_def w)
  have fourth: "and_then (gate_on (LessThanEqual m m) (kq @ sig @ f)) (\<lambda>op. Inr (Op op)) =
      (if int (length (kq @ sig @ f)) = m + m + 1 \<and> distinct (kq @ sig @ f)
       then Inr (Op (On (LessThanEqual m m) (kq @ sig @ f))) else Inl ValueError)"
    by (simp add: gate_on_LessThanEqual and_then_def)
  have fifth: "and_then (CSwap_make_on (map_of [(''ctrl'', f), (''x'', aq), (''y'', sel)]))
        (\<lambda>op. Inr (Op op)) =
      (if length f = 1 \<and> length sel = length aq \<and> distinct (f @ aq @ sel)
       then Inr (Op (On (CSwap (int (length aq))) (f @ aq @ sel))) else Inl ValueError)"
  proof -
    have kw: "map_of [(''ctrl'', f), (''x'', aq), (''y'', sel)] ''ctrl'' = Some f"
      "map_of [(''ctrl'', f), (''x'', aq), (''y'', sel)] ''x'' = Some aq"
      "map_of [(''ctrl'', f), (''x'', aq), (''y'', sel)] ''y'' = Some sel"
      by simp_all
    show ?thesis
      by (simp only: CSwap_make_on_bindings [OF kw] and_then_def) (simp split: if_splits)
  qed
  have "decompose_from_registers S quregs =
    run_yields
      [and_then (gate_on (PrepareUniformSuperposition L) sel) (\<lambda>op. Inr (Op op)),
       Inr (Op_list (on_each H sig)),
       and_then (QROM_init [alt S, keep S] [selection_bitsize S]
                     [alternates_bitsize S, keep_bitsize S])
           (\<lambda>qrom_gate.
              and_then (on_registers qrom_gate
                          (map_of [(''selection'', sel), (''target0_'', aq),
                                   (''target1_'', kq)]))
                (\<lambda>op. Inr (Op op))),
       and_then (gate_on (LessThanEqual (mu S) (mu S)) (kq @ sig @ f)) (\<lambda>op. Inr (Op op)),
       and_then (CSwap_make_on (map_of [(''ctrl'', f), (''x'', aq), (''y'', sel)]))
         (\<lambda>op. Inr (Op op))]"
    using sel f aq by (simp add: decompose_from_registers_def Let_def sig kq S)
  also have "mu S = m" by (simp add: S)
  finally show ?thesis
    by (simp only: first third fourth fifth on_each_def)
qed

lemma run_yields_five:
  "run_yields [if c1 then Inr o1 else Inl e, Inr o2, if c3 then Inr o3 else Inl e,
               if c4 then Inr o4 else Inl e, if c5 then Inr o5 else Inl e] =
     (if c1 \<and> c3 \<and> c4 \<and> c5 then ([o1, o2, o3, o4, o5], None)
      else if \<not> c1 then ([], Some e)
      else if \<not> c3 then ([o1, o2], Some e)
      else if \<not> c4 then ([o1, o2, o3], Some e)
      else ([o1, o2, o3, o4], Some e))"
  by simp

lemma decompose_factory_built:
  assumes built: "from_lcu_probs preprocess probs eps = Inr S"
    and table: "AliasTable_invariants (int (length probs)) (ravel (alt S)) (ravel (keep S)) (mu S)"
    and L: "1 \<le> length probs"
    and sel: "quregs ''selection'' = Some sel"
    and f: "quregs ''less_than_equal'' = Some f"
    and aq: "quregs ''alt'' = Some aq"
    and sig: "sig = dict_get quregs ''sigma_mu'' []"
    and kq: "kq = dict_get quregs ''keep'' []"
  shows "decompose_from_registers S quregs =
    run_yields
      [if int (length sel) = selection_bitsize S \<and> distinct sel
       then Inr (Op (On (PrepareUniformSuperposition (int (length probs))) sel))
       else Inl ValueError,
       Inr (Op_list (map (\<lambda>q. On H [q]) sig)),
       if int (length sel) = selection_bitsize S
          \<and> (alternates_bitsize S \<noteq> 0 \<longrightarrow> int (length aq) = alternates_bitsize S)
          \<and> (mu S \<noteq> 0 \<longrightarrow> int (length kq) = mu S)
          \<and> distinct (sel @ (if alternates_bitsize S \<noteq> 0 then aq else [])
                         @ (if mu S \<noteq> 0 then kq else []))
       then Inr (Op (On (QROM [alt S, keep S] [selection_bitsize S]
                          [alternates_bitsize S, keep_bitsize S])
                      (sel @ (if alternates_bitsize S \<noteq> 0 then aq else [])
                           @ (if mu S \<noteq> 0 then kq else []))))
       else Inl ValueError,
       if int (length (kq @ sig @ f)) = mu S + mu S + 1 \<and> distinct (kq @ sig @ f)
       then Inr (Op (On (LessThanEqual (mu S) (mu S)) (kq @ sig @ f))) else Inl ValueError,
       if length f = 1 \<and> length sel = length aq \<and> distinct (f @ aq @ sel)
       then Inr (Op (On (CSwap (int (length aq))) (f @ aq @ sel))) else Inl ValueError]"
proof -
  from from_lcu_probs_InrD [OF built] obtain a k m where
    S: "S = \<lparr>selection_registers =
           [\<lparr>name = ''selection'', bitsize = bit_length (int (length probs) - 1),
             iteration_length = int (length probs)\<rparr>],
         alt = np_array a, keep = np_array k, mu = m\<rparr>"
    by blast
  have inv: "AliasTable_invariants (int (length probs)) a k m"
    using table by (simp add: S ravel_def np_array_def)
  have L': "1 \<le> int (length probs)" using L by simp
  have widths: "selection_bitsize S = bit_length (int (length probs) - 1)"
    "alternates_bitsize S = bit_length (int (length probs) - 1)" "keep_bitsize S = m"
    "mu S = m" "alt S = np_array a" "keep S = np_array k"
    by (simp_all add: S selection_bitsize_def alternates_bitsize_def keep_bitsize_def
        total_bits_def)
  show ?thesis
    unfolding widths
    by (rule decompose_factory_form [OF S inv L' sel f aq sig kq refl])
qed




lemma decompose_missing_binding:
  "(quregs ''selection'' = None
      \<longrightarrow> decompose_from_registers S quregs = ([], Some (KeyError ''selection'')))
   \<and> (quregs ''selection'' \<noteq> None \<and> quregs ''less_than_equal'' = None
      \<longrightarrow> decompose_from_registers S quregs = ([], Some (KeyError ''less_than_equal'')))
   \<and> (quregs ''selection'' \<noteq> None \<and> quregs ''less_than_equal'' \<noteq> None
        \<and> quregs ''alt'' = None
      \<longrightarrow> decompose_from_registers S quregs = ([], Some (KeyError ''alt'')))"
  by (auto simp add: decompose_from_registers_def Let_def)


section \<open>Derived accessors\<close>




section \<open>The decomposition\<close>





text \<open>
  C8, as the code has it. The decomposition has no check of its own. An absent binding of
  \<open>selection\<close>, \<open>less_than_equal\<close> or \<open>alt\<close> raises \<^verbatim>\<open>KeyError\<close> before any step,
  for the first absent name in this order. For a sampler of the factory with a table
  that has the invariants, when these three are bound and the number of qubits of one of
  the five registers is not its declared width, an absent \<open>sigma_mu\<close> or \<open>keep\<close>
  counting as no qubits, the decomposition ends with the \<^verbatim>\<open>ValueError\<close> of the gate
  that is given the wrong number of qubits, after fewer than five steps; with no
  selection qubit bound twice, it is before any step exactly when the selection register
  is the wrong one.
\<close>

theorem decompose_mismatch_raises:
  assumes built: "from_lcu_probs preprocess probs eps = Inr S"
    and table: "AliasTable_invariants (int (length probs)) (ravel (alt S)) (ravel (keep S)) (mu S)"
    and L: "1 \<le> length probs"
  shows "(quregs ''selection'' = None
      \<longrightarrow> decompose_from_registers S quregs = ([], Some (KeyError ''selection'')))
   \<and> (quregs ''selection'' \<noteq> None \<and> quregs ''less_than_equal'' = None
      \<longrightarrow> decompose_from_registers S quregs = ([], Some (KeyError ''less_than_equal'')))
   \<and> (quregs ''selection'' \<noteq> None \<and> quregs ''less_than_equal'' \<noteq> None
        \<and> quregs ''alt'' = None
      \<longrightarrow> decompose_from_registers S quregs = ([], Some (KeyError ''alt'')))
   \<and> (quregs ''selection'' = Some sel \<and> quregs ''less_than_equal'' = Some f
        \<and> quregs ''alt'' = Some aq
        \<and> \<not> (int (length sel) = selection_bitsize S
              \<and> int (length (dict_get quregs ''sigma_mu'' [])) = sigma_mu_bitsize S
              \<and> int (length aq) = alternates_bitsize S
              \<and> int (length (dict_get quregs ''keep'' [])) = keep_bitsize S
              \<and> length f = 1)
      \<longrightarrow> (\<exists>steps. decompose_from_registers S quregs = (steps, Some ValueError)
             \<and> length steps < 5
             \<and> (distinct sel
                  \<longrightarrow> (steps = []) = (int (length sel) \<noteq> selection_bitsize S))))"
proof -
  have "\<exists>steps. decompose_from_registers S quregs = (steps, Some ValueError)
             \<and> length steps < 5
             \<and> (distinct sel \<longrightarrow> (steps = []) = (int (length sel) \<noteq> selection_bitsize S))"
    if sel: "quregs ''selection'' = Some sel" and f: "quregs ''less_than_equal'' = Some f"
      and aq: "quregs ''alt'' = Some aq"
      and mis: "\<not> (int (length sel) = selection_bitsize S
              \<and> int (length (dict_get quregs ''sigma_mu'' [])) = sigma_mu_bitsize S
              \<and> int (length aq) = alternates_bitsize S
              \<and> int (length (dict_get quregs ''keep'' [])) = keep_bitsize S
              \<and> length f = 1)"
  proof -
    define sig where "sig = dict_get quregs ''sigma_mu'' []"
    define kq where "kq = dict_get quregs ''keep'' []"
    have same: "alternates_bitsize S = selection_bitsize S"
      by (simp add: alternates_bitsize_def selection_bitsize_def)
    have acc: "sigma_mu_bitsize S = mu S" "keep_bitsize S = mu S"
      by (simp_all add: sigma_mu_bitsize_def keep_bitsize_def)
    let ?c1 = "int (length sel) = selection_bitsize S \<and> distinct sel"
    let ?c3 = "int (length sel) = selection_bitsize S
          \<and> (alternates_bitsize S \<noteq> 0 \<longrightarrow> int (length aq) = alternates_bitsize S)
          \<and> (mu S \<noteq> 0 \<longrightarrow> int (length kq) = mu S)
          \<and> distinct (sel @ (if alternates_bitsize S \<noteq> 0 then aq else [])
                         @ (if mu S \<noteq> 0 then kq else []))"
    let ?c4 = "int (length (kq @ sig @ f)) = mu S + mu S + 1 \<and> distinct (kq @ sig @ f)"
    let ?c5 = "length f = 1 \<and> length sel = length aq \<and> distinct (f @ aq @ sel)"
    have not_all: "\<not> (?c1 \<and> ?c3 \<and> ?c4 \<and> ?c5)"
    proof
      assume all: "?c1 \<and> ?c3 \<and> ?c4 \<and> ?c5"
      then have l1: "int (length sel) = selection_bitsize S" and l5: "length f = 1"
        and la: "length sel = length aq"
        and lk: "mu S \<noteq> 0 \<longrightarrow> int (length kq) = mu S"
        and l4: "int (length (kq @ sig @ f)) = mu S + mu S + 1"
        by blast+
      from l1 la same have a: "int (length aq) = alternates_bitsize S" by simp
      have sum: "int (length kq) + int (length sig) = mu S + mu S" using l4 l5 by simp
      have k: "int (length kq) = mu S"
      proof (cases "mu S = 0")
        case True
        with sum show ?thesis by linarith
      next
        case False
        with lk show ?thesis by simp
      qed
      have s: "int (length sig) = mu S" using k sum by simp
      from mis l1 a k s l5 show False by (simp add: acc sig_def kq_def)
    qed
    show ?thesis
      unfolding decompose_factory_built [OF built table L sel f aq sig_def kq_def]
        run_yields_five
      using not_all by auto
  qed
  with decompose_missing_binding [of quregs S] show ?thesis by blast
qed

theorem decompose_mismatch_raises_witness:
  "decompose_from_registers example_sampler (Map.empty :: string \<rightharpoonup> nat list)
     = ([], Some (KeyError ''selection''))
   \<and> decompose_from_registers example_sampler (map_of [(''selection'', [0::nat, 1])])
     = ([], Some (KeyError ''less_than_equal''))
   \<and> decompose_from_registers example_sampler
       (map_of [(''selection'', [0::nat, 1]), (''less_than_equal'', [8])])
     = ([], Some (KeyError ''alt''))
   \<and> (\<exists>steps. decompose_from_registers example_sampler short_sigma_quregs
         = (steps, Some ValueError) \<and> length steps < 5 \<and> steps \<noteq> [])"
proof -
  note t = decompose_mismatch_raises [OF example_sampler_factory example_sampler_table]
  have 1: "decompose_from_registers example_sampler (Map.empty :: string \<rightharpoonup> nat list)
     = ([], Some (KeyError ''selection''))"
    using t [of Map.empty] by (simp add: example_probabilities_def)
  have 2: "decompose_from_registers example_sampler (map_of [(''selection'', [0::nat, 1])])
     = ([], Some (KeyError ''less_than_equal''))"
    using t [of "map_of [(''selection'', [0::nat, 1])]"]
    by (simp add: example_probabilities_def)
  have 3: "decompose_from_registers example_sampler
       (map_of [(''selection'', [0::nat, 1]), (''less_than_equal'', [8])])
     = ([], Some (KeyError ''alt''))"
    using t [of "map_of [(''selection'', [0::nat, 1]), (''less_than_equal'', [8])]"]
    by (simp add: example_probabilities_def)
  have 4: "\<exists>steps. decompose_from_registers example_sampler short_sigma_quregs
         = (steps, Some ValueError) \<and> length steps < 5 \<and> steps \<noteq> []"
    using t [of short_sigma_quregs "[0, 1]" "[8]" "[4, 5]"]
    by (simp add: example_probabilities_def short_sigma_quregs_def dict_get_def
        example_sampler_def selection_bitsize_def sigma_mu_bitsize_def total_bits_def)
  from 1 2 3 4 show ?thesis by blast
qed

text \<open>
  C8, as it is stated, fails: the example sampler declares two qubits for \<open>sigma_mu\<close>,
  the bindings give it one, and the decomposition hands out three steps before the
  comparator raises \<^verbatim>\<open>ValueError\<close>.
\<close>

theorem decompose_size_mismatch_counterexample:
  "\<not> bindings_match example_sampler short_sigma_quregs
   \<and> decompose_from_registers example_sampler short_sigma_quregs =
     ([Op (On (PrepareUniformSuperposition 3) [0, 1]),
       Op_list [On H [2]],
       Op (On (QROM [np_array [0, 0, 0], np_array [0, 3, 3]] [2] [2, 2])
             [0, 1, 4, 5, 6, 7])],
      Some ValueError)"
proof -
  have "\<not> bindings_match example_sampler short_sigma_quregs"
    by (simp add: bindings_match_def declared_widths_def binding_has_width_def
      junk_registers_def Signature_build_def sigma_mu_bitsize_def alternates_bitsize_def
      keep_bitsize_def selection_bitsize_def total_bits_def
      example_sampler_def short_sigma_quregs_def)
  moreover have "decompose_from_registers example_sampler short_sigma_quregs =
     ([Op (On (PrepareUniformSuperposition 3) [0, 1]),
       Op_list [On H [2]],
       Op (On (QROM [np_array [0, 0, 0], np_array [0, 3, 3]] [2] [2, 2])
             [0, 1, 4, 5, 6, 7])],
      Some ValueError)"
    by code_simp
  ultimately show ?thesis by blast
qed

section \<open>The factory\<close>

text \<open>
  C4. For every coefficient vector of length \<open>L \<ge> 1\<close> that the factory accepts, the
  \<open>selection_bitsize\<close> of the sampler is \<open>\<lceil>log\<^sub>2 L\<rceil>\<close>: 3 for \<open>L = 5\<close>, 3 for
  \<open>L = 8\<close> and 4 for \<open>L = 9\<close>.
\<close>

theorem selection_bitsize_ceil_log2:
  assumes "from_lcu_probs preprocess probs eps = Inr S" and "1 \<le> length probs"
  shows "selection_bitsize S = \<lceil>log 2 (real (length probs))\<rceil>
    \<and> (length probs = 5 \<longrightarrow> selection_bitsize S = 3)
    \<and> (length probs = 8 \<longrightarrow> selection_bitsize S = 3)
    \<and> (length probs = 9 \<longrightarrow> selection_bitsize S = 4)"
proof -
  have w: "selection_bitsize S = bit_length (int (length probs) - 1)"
    using assms(1) by (rule selection_bitsize_factory)
  have "selection_bitsize S = \<lceil>log 2 (real (length probs))\<rceil>"
    using w bit_length_pred_ceiling_log [OF assms(2)] by simp
  then show ?thesis using w bit_length_examples by auto
qed

theorem selection_bitsize_ceil_log2_witness:
  "selection_bitsize (uniform_sampler 5 3) = 3
   \<and> selection_bitsize (uniform_sampler 8 3) = 3
   \<and> selection_bitsize (uniform_sampler 9 4) = 4
   \<and> selection_bitsize (uniform_sampler 5 3) = \<lceil>log 2 (real (length (uniform_probabilities 5)))\<rceil>"
  using selection_bitsize_ceil_log2 [of uniform_preprocess "uniform_probabilities 5"
      example_epsilon "uniform_sampler 5 3"]
    selection_bitsize_ceil_log2 [of uniform_preprocess "uniform_probabilities 8"
      example_epsilon "uniform_sampler 8 3"]
    selection_bitsize_ceil_log2 [of uniform_preprocess "uniform_probabilities 9"
      example_epsilon "uniform_sampler 9 4"]
    uniform_sampler_factory [of 5] uniform_sampler_factory [of 8] uniform_sampler_factory [of 9]
  by (simp add: bit_length_examples uniform_probabilities_def)

text \<open>
  C7, as the code has it. For every sampler the factory builds from \<open>L \<ge> 1\<close>
  coefficients, the junk registers are built from the widths \<open>sigma_mu = mu\<close>,
  \<open>alt = \<lceil>log\<^sub>2 L\<rceil>\<close>, \<open>keep = mu\<close> and \<open>less_than_equal = 1\<close>; their total
  width is \<open>\<lceil>log\<^sub>2 L\<rceil> + 2 mu + 1\<close>, and together with the selection register the
  total is \<open>2 \<lceil>log\<^sub>2 L\<rceil> + 2 mu + 1\<close>.
\<close>

theorem junk_register_widths:
  assumes "preprocess probs eps = Inr (a, k, m)" and "1 \<le> length probs"
  shows "\<exists>S. from_lcu_probs preprocess probs eps = Inr S
    \<and> junk_registers S =
        [\<lparr>name = ''sigma_mu'', bitsize = m\<rparr>,
         \<lparr>name = ''alt'', bitsize = \<lceil>log 2 (real (length probs))\<rceil>\<rparr>,
         \<lparr>name = ''keep'', bitsize = m\<rparr>,
         \<lparr>name = ''less_than_equal'', bitsize = 1\<rparr>]
    \<and> total_bits (junk_registers S) = \<lceil>log 2 (real (length probs))\<rceil> + 2 * m + 1
    \<and> total_bits (selection_registers S) + total_bits (junk_registers S)
        = 2 * \<lceil>log 2 (real (length probs))\<rceil> + 2 * m + 1"
  using from_lcu_probs_Inr [of preprocess probs eps a k m] assms(1)
    bit_length_pred_ceiling_log [OF assms(2)]
  by (simp add: junk_registers_def Signature_build_def sigma_mu_bitsize_def
      alternates_bitsize_def keep_bitsize_def total_bits_def)

theorem junk_register_widths_witness:
  "\<exists>S. from_lcu_probs example_preprocess example_probabilities example_epsilon = Inr S
    \<and> junk_registers S =
        [\<lparr>name = ''sigma_mu'', bitsize = 2\<rparr>, \<lparr>name = ''alt'', bitsize = 2\<rparr>,
         \<lparr>name = ''keep'', bitsize = 2\<rparr>, \<lparr>name = ''less_than_equal'', bitsize = 1\<rparr>]
    \<and> total_bits (junk_registers S) = 7
    \<and> total_bits (selection_registers S) + total_bits (junk_registers S) = 9"
  using junk_register_widths [of example_preprocess example_probabilities example_epsilon
      "[0, 0, 0]" "[0, 3, 3]" 2] ceiling_log2_3
  by (simp add: example_preprocess_def example_probabilities_def)

text \<open>
  C7, as it is stated, fails: the four junk registers of the example sampler
  (\<open>L = 3\<close>, \<open>mu = 2\<close>) are 7 qubits wide in total, and
  \<open>2 \<lceil>log\<^sub>2 L\<rceil> + 2 mu + 1\<close> is 9.
\<close>

theorem junk_total_width_counterexample:
  "from_lcu_probs example_preprocess example_probabilities example_epsilon = Inr example_sampler
   \<and> total_bits (junk_registers example_sampler)
     \<noteq> 2 * \<lceil>log 2 (real (length example_probabilities))\<rceil> + 2 * mu example_sampler + 1"
  using example_sampler_factory ceiling_log2_3
  by (simp add: junk_registers_def Signature_build_def sigma_mu_bitsize_def
      alternates_bitsize_def keep_bitsize_def total_bits_def example_sampler_def)

section \<open>The alias table\<close>

text \<open>
  C2. When the builder returns a table that has the invariants of the spec's data model
  for \<open>L\<close> coefficients, the factory returns a sampler holding this table, and the
  table conserves mass: over all outcomes \<open>l\<close>, the units \<open>keep[l]\<close> together with the
  units \<open>2^mu - keep[j]\<close> of every \<open>j\<close> with \<open>alt[j] = l\<close> add up to exactly
  \<open>L * 2^mu\<close>.
\<close>

theorem alias_table_conserves_mass:
  assumes "preprocess probs eps = Inr (a, k, m)"
    and "AliasTable_invariants (int (length probs)) a k m"
  shows "\<exists>S. from_lcu_probs preprocess probs eps = Inr S
    \<and> ravel (alt S) = a \<and> ravel (keep S) = k \<and> mu S = m
    \<and> total_encoded_units (ravel (alt S)) (ravel (keep S)) (mu S)
        = int (length probs) * 2 ^ nat (mu S)"
  using from_lcu_probs_Inr [of preprocess probs eps a k m] assms(1)
    conservation_of_table [OF assms(2)]
  by (simp add: ravel_def np_array_def)

theorem alias_table_conserves_mass_witness:
  "\<exists>S. from_lcu_probs example_preprocess example_probabilities example_epsilon = Inr S
    \<and> ravel (alt S) = [0, 0, 0] \<and> ravel (keep S) = [0, 3, 3] \<and> mu S = 2
    \<and> total_encoded_units (ravel (alt S)) (ravel (keep S)) (mu S) = 3 * 2 ^ 2"
  using alias_table_conserves_mass [of example_preprocess example_probabilities
      example_epsilon "[0, 0, 0]" "[0, 3, 3]" 2, OF _ example_table_invariants]
  by (auto simp add: example_preprocess_def example_probabilities_def)

section \<open>Equality, hashing and construction\<close>

text \<open>
  C5. Two samplers are equal exactly when their selection registers, their flattened
  \<open>alt\<close>, their flattened \<open>keep\<close> and their \<open>mu\<close> are equal, whatever way they
  were constructed, and equal samplers have equal hashes. So two samplers that the
  factory builds from the same coefficients and \<open>epsilon\<close> are equal and hash equal;
  and when a change of the coefficients changes what the table builder returns, which
  is what a change of a probability beyond its rounding slack does, the two samplers
  are not equal.
\<close>

theorem equality_is_structural:
  "(sampler_eq S T \<longleftrightarrow>
      selection_registers S = selection_registers T \<and> ravel (alt S) = ravel (alt T)
      \<and> ravel (keep S) = ravel (keep T) \<and> mu S = mu T)
   \<and> (sampler_eq S T \<longrightarrow> sampler_hash hash_fn S = sampler_hash hash_fn T)
   \<and> (from_lcu_probs preprocess probs eps = Inr S
        \<and> from_lcu_probs preprocess probs eps = Inr T
      \<longrightarrow> sampler_eq S T \<and> sampler_hash hash_fn S = sampler_hash hash_fn T)
   \<and> (from_lcu_probs preprocess probs eps = Inr S
        \<and> from_lcu_probs preprocess probs' eps' = Inr T
        \<and> preprocess probs eps \<noteq> preprocess probs' eps'
      \<longrightarrow> \<not> sampler_eq S T)"
proof -
  have eq: "sampler_eq S T \<longleftrightarrow>
      selection_registers S = selection_registers T \<and> ravel (alt S) = ravel (alt T)
      \<and> ravel (keep S) = ravel (keep T) \<and> mu S = mu T"
    by (simp add: sampler_eq_def value_equality_values_def)
  have hash: "sampler_eq S T \<longrightarrow> sampler_hash hash_fn S = sampler_hash hash_fn T"
    by (simp add: sampler_eq_def sampler_hash_def)
  have same: "from_lcu_probs preprocess probs eps = Inr S
        \<and> from_lcu_probs preprocess probs eps = Inr T
      \<longrightarrow> sampler_eq S T \<and> sampler_hash hash_fn S = sampler_hash hash_fn T"
    by (auto simp add: sampler_eq_def sampler_hash_def)
  have diff: "from_lcu_probs preprocess probs eps = Inr S
        \<and> from_lcu_probs preprocess probs' eps' = Inr T
        \<and> preprocess probs eps \<noteq> preprocess probs' eps'
      \<longrightarrow> \<not> sampler_eq S T"
  proof (intro impI, elim conjE)
    assume S: "from_lcu_probs preprocess probs eps = Inr S"
      and T: "from_lcu_probs preprocess probs' eps' = Inr T"
      and ne: "preprocess probs eps \<noteq> preprocess probs' eps'"
    from from_lcu_probs_InrD [OF S] obtain a k m where
      p: "preprocess probs eps = Inr (a, k, m)"
      and s: "ravel (alt S) = a" "ravel (keep S) = k" "mu S = m"
      by (auto simp add: ravel_def np_array_def)
    from from_lcu_probs_InrD [OF T] obtain a' k' m' where
      p': "preprocess probs' eps' = Inr (a', k', m')"
      and t: "ravel (alt T) = a'" "ravel (keep T) = k'" "mu T = m'"
      by (auto simp add: ravel_def np_array_def)
    from ne p p' have "(a, k, m) \<noteq> (a', k', m')" by simp
    with s t show "\<not> sampler_eq S T" by (auto simp add: eq)
  qed
  from eq hash same diff show ?thesis by blast
qed

theorem equality_is_structural_witness:
  "sampler_eq example_sampler example_sampler
   \<and> sampler_eq example_sampler reshaped_sampler
   \<and> sampler_hash (\<lambda>v. v) example_sampler = sampler_hash (\<lambda>v. v) reshaped_sampler
   \<and> alt example_sampler \<noteq> alt reshaped_sampler
   \<and> \<not> sampler_eq example_sampler changed_sampler"
  using equality_is_structural [of example_sampler example_sampler "\<lambda>v. v"
      example_preprocess example_probabilities example_epsilon
      "example_probabilities[0 := 1/4, 1 := 1/2]" example_epsilon]
    equality_is_structural [of example_sampler reshaped_sampler "\<lambda>v. v"
      example_preprocess example_probabilities example_epsilon
      "example_probabilities[0 := 1/4, 1 := 1/2]" example_epsilon]
    equality_is_structural [of example_sampler changed_sampler "\<lambda>v. v"
      example_preprocess example_probabilities example_epsilon
      "example_probabilities[0 := 1/4, 1 := 1/2]" example_epsilon]
    example_sampler_factory changed_sampler_factory
  by (simp add: example_preprocess_def example_probabilities_def example_sampler_def
      changed_sampler_def reshaped_sampler_def StatePreparationAliasSampling_init_def
      ravel_def np_array_def)

text \<open>
  C10. The constructor stores its arguments as they are, whatever they are. So a direct
  construction with an \<open>alt\<close> of two entries and a \<open>keep\<close> of four for the iteration
  length 3, with the entries 5 and -1 of \<open>alt\<close> outside \<open>[0, 3)\<close> and the entries 9
  and 7 of \<open>keep\<close> outside \<open>[0, 2^2)\<close>, returns a sampler, and the sampler does not
  have the invariants of the alias table.
\<close>

theorem constructor_performs_no_validation:
  "selection_registers (StatePreparationAliasSampling_init v a k m) = converter v
   \<and> alt (StatePreparationAliasSampling_init v a k m) = a
   \<and> keep (StatePreparationAliasSampling_init v a k m) = k
   \<and> mu (StatePreparationAliasSampling_init v a k m) = m
   \<and> (let S = StatePreparationAliasSampling_init
                (One \<lparr>name = ''selection'', bitsize = 2, iteration_length = 3\<rparr>)
                (np_array [5, - 1]) (np_array [9, 0, 0, 7]) 2
      in selection_registers S = [\<lparr>name = ''selection'', bitsize = 2, iteration_length = 3\<rparr>]
         \<and> ravel (alt S) = [5, - 1] \<and> ravel (keep S) = [9, 0, 0, 7] \<and> mu S = 2
         \<and> int (length (ravel (alt S))) \<noteq> 3 \<and> int (length (ravel (keep S))) \<noteq> 3
         \<and> \<not> list_all (\<lambda>x. 0 \<le> x \<and> x < 3) (ravel (alt S))
         \<and> \<not> list_all (\<lambda>x. 0 \<le> x \<and> x < 2 ^ nat (mu S)) (ravel (keep S))
         \<and> \<not> AliasTable_invariants 3 (ravel (alt S)) (ravel (keep S)) (mu S))"
  by (simp add: StatePreparationAliasSampling_init_def Let_def ravel_def np_array_def
      AliasTable_invariants_def)

end
